theory Spec2Isabelle
  imports Main "HOL-Library.Word" "HOL-Library.Monad_Syntax"
begin

unbundle bit_operations_syntax

section \<open>Bytes, machine integers and memory blocks\<close>

text \<open>
  The record codecs of darshan-util move raw bytes between the log's module region and a
  record buffer in memory.  Memory is modelled as a list of bytes; an access outside a block
  is undefined behaviour in C and is the value \<open>None\<close> here.  A 64-bit value is read from
  eight bytes in the host's order (little endian, as on x86-64).
\<close>

type_synonym byte = "8 word"

definition le64 :: "byte list \<Rightarrow> 64 word" where
  "le64 bs = word_of_int (horner_sum uint 256 bs)"

definition store64 :: "64 word \<Rightarrow> byte list" where
  "store64 w = map (\<lambda>k. ucast (drop_bit (8 * k) w)) [0..<8]"

text \<open>An \<open>int64_t\<close> value as it lies in memory.\<close>

definition store_i64 :: "int \<Rightarrow> byte list" where
  "store_i64 x = store64 (word_of_int x)"

text \<open>Conversion of a value to C \<open>int\<close> (32 bits, wrapping) and to \<open>size_t\<close> (64 bits).\<close>

definition c_int :: "int \<Rightarrow> int" where
  "c_int x = (x + 2 ^ 31) mod 2 ^ 32 - 2 ^ 31"

definition c_size_t :: "int \<Rightarrow> nat" where
  "c_size_t x = nat (x mod 2 ^ 64)"

definition INT_MAX :: int where
  "INT_MAX = 2 ^ 31 - 1"

definition load :: "byte list \<Rightarrow> nat \<Rightarrow> nat \<Rightarrow> byte list option" where
  "load mem off n = (if off + n \<le> length mem then Some (take n (drop off mem)) else None)"

definition store :: "byte list \<Rightarrow> nat \<Rightarrow> byte list \<Rightarrow> byte list option" where
  "store mem off bs =
     (if off + length bs \<le> length mem
      then Some (take off mem @ bs @ drop (off + length bs) mem) else None)"

text \<open>
  Modelled from the spec: the macro \<open>DARSHAN_BSWAP64\<close> is defined in darshan-logutils.h,
  which is not among the sources; it reverses the byte order of the 64-bit value at a
  pointer.  \<open>bswap64_array mem off n\<close> is the loop
  \<^verbatim>\<open>for (j = 0; j < n; j++) DARSHAN_BSWAP64(&a[j]);\<close> over the array at offset \<open>off\<close>.
\<close>

definition DARSHAN_BSWAP64 :: "byte list \<Rightarrow> nat \<Rightarrow> byte list option" where
  "DARSHAN_BSWAP64 mem off =
     (case load mem off 8 of None \<Rightarrow> None | Some w \<Rightarrow> store mem off (rev w))"

primrec bswap64_array :: "byte list \<Rightarrow> nat \<Rightarrow> nat \<Rightarrow> byte list option" where
  "bswap64_array mem off 0 = Some mem"
| "bswap64_array mem off (Suc n) =
     (case DARSHAN_BSWAP64 mem off of
        None \<Rightarrow> None
      | Some mem' \<Rightarrow> bswap64_array mem' (off + 8) n)"

section \<open>The log file descriptor and the container's primitives\<close>

text \<open>
  The fields of \<open>darshan_fd\<close> that the two codecs use, for one module: the length of the
  module's region in the log (\<open>mod_map[m].len\<close>), its format version (\<open>mod_ver[m]\<close>), the
  byte-order flag, the bytes of the region not yet read, and the bytes appended by the
  writer.  \<open>io_errs\<close> scripts the container's reader: the n-th call fails when the n-th
  entry is \<open>True\<close>; \<open>put_fails\<close> makes the writer fail.
\<close>

record darshan_fd =
  mod_len :: nat
  mod_ver :: int
  swap_flag :: bool
  mod_data :: "byte list"
  io_errs :: "bool list"
  mod_out :: "byte list"
  put_fails :: bool

text \<open>
  Modelled from the spec: \<open>darshan_log_get_mod\<close> is defined in darshan-logutils.c, which is
  not among the sources.  It reads up to \<open>mod_buf_sz\<close> bytes of the module's region, returns
  the number of bytes read (fewer than requested at the end of the region, 0 when the
  module is absent), or -1 when the reader fails.  The bytes read are returned to be stored
  at the destination.
\<close>

definition darshan_log_get_mod :: "darshan_fd \<Rightarrow> int \<Rightarrow> int \<times> byte list \<times> darshan_fd" where
  "darshan_log_get_mod fd mod_buf_sz =
     (if mod_len fd = 0 then (0, [], fd)
      else case io_errs fd of
        True # es \<Rightarrow> (- 1, [], fd\<lparr>io_errs := es\<rparr>)
      | _ \<Rightarrow>
         (let got = take (nat mod_buf_sz) (mod_data fd)
          in (int (length got), got,
              fd\<lparr>mod_data := drop (nat mod_buf_sz) (mod_data fd), io_errs := tl (io_errs fd)\<rparr>)))"

text \<open>
  Modelled from the spec: \<open>darshan_log_put_mod\<close> is defined in darshan-logutils.c, which is
  not among the sources.  It appends exactly \<open>mod_buf_sz\<close> bytes, read from the buffer, to the
  module's region and tags the module with format version \<open>ver\<close>; it returns a negative
  value when the writer fails.
\<close>

definition darshan_log_put_mod ::
  "darshan_fd \<Rightarrow> byte list \<Rightarrow> int \<Rightarrow> int \<Rightarrow> (int \<times> darshan_fd) option" where
  "darshan_log_put_mod fd mod_buf mod_buf_sz ver =
     (if put_fails fd then Some (- 1, fd)
      else case load mod_buf 0 (nat mod_buf_sz) of
        None \<Rightarrow> None
      | Some bs \<Rightarrow> Some (0, fd\<lparr>mod_ver := ver, mod_out := mod_out fd @ bs\<rparr>))"

section \<open>Record buffers and the allocator\<close>

text \<open>
  A record buffer is a block of memory at an address.  The caller's \<open>*buf_p\<close> is
  \<open>None\<close> for \<open>NULL\<close>.  The allocator grants a request of at most \<open>avail\<close> bytes; bytes that
  were never written hold whatever \<open>junk\<close> says.  Every call of malloc, realloc and free is
  recorded as an event.
\<close>

record buffer =
  addr :: "64 word"
  bytes :: "byte list"

record allocator =
  avail :: nat
  fresh_addr :: "64 word"
  moved_addr :: "64 word"
  junk :: "nat \<Rightarrow> byte"

datatype mem_event = Malloc nat | Realloc nat | Free

definition malloc :: "allocator \<Rightarrow> nat \<Rightarrow> buffer option" where
  "malloc al n =
     (if n \<le> avail al then Some \<lparr>addr = fresh_addr al, bytes = map (junk al) [0..<n]\<rparr>
      else None)"

definition realloc :: "allocator \<Rightarrow> buffer \<Rightarrow> nat \<Rightarrow> buffer option" where
  "realloc al b n =
     (if n \<le> avail al
      then Some \<lparr>addr = moved_addr al,
                 bytes = take n (bytes b) @ map (junk al) [length (bytes b)..<n]\<rparr>
      else None)"

text \<open>What a call of \<open>get_record\<close> leaves behind: the returned code, the caller's
  \<open>*buf_p\<close>, the descriptor and the allocator calls made.\<close>

record get_result =
  g_ret :: int
  g_buf :: "buffer option"
  g_fd :: darshan_fd
  g_events :: "mem_event list"

text \<open>A \<open>return\<close> that leaves \<open>*buf_p\<close> as it was.\<close>

definition return_code ::
  "int \<Rightarrow> buffer option \<Rightarrow> darshan_fd \<Rightarrow> mem_event list \<Rightarrow> get_result" where
  "return_code r buf_p fd evs = \<lparr>g_ret = r, g_buf = buf_p, g_fd = fd, g_events = evs\<rparr>"

text \<open>
  The end of both Lustre readers:
  \<^verbatim>\<open>if(*lustre_buf_p == NULL) { if(ret == 1) *lustre_buf_p = rec; else free(rec); }
return(ret);\<close>
  With a caller's buffer, \<open>rec\<close> is that buffer, written in place.
\<close>

definition hand_over ::
  "buffer option \<Rightarrow> buffer \<Rightarrow> int \<Rightarrow> darshan_fd \<Rightarrow> mem_event list \<Rightarrow> get_result" where
  "hand_over lustre_buf_p rec ret fd evs =
     (case lustre_buf_p of
        None \<Rightarrow>
          if ret = 1 then \<lparr>g_ret = ret, g_buf = Some rec, g_fd = fd, g_events = evs\<rparr>
          else \<lparr>g_ret = ret, g_buf = None, g_fd = fd, g_events = evs @ [Free]\<rparr>
      | Some _ \<Rightarrow> \<lparr>g_ret = ret, g_buf = Some rec, g_fd = fd, g_events = evs\<rparr>)"

section \<open>The Lustre module: layout\<close>

text \<open>
  Modelled from the spec: the Lustre record types, the counter enumeration generated from
  \<open>LUSTRE_COMP_COUNTERS\<close>, \<open>LUSTRE_RECORD_SIZE\<close> and \<open>DARSHAN_LUSTRE_VER\<close> are declared in
  darshan-lustre-log-format.h, which is not among the sources.  The base record is an
  identifier and a rank of eight bytes each.  A component is its counters, in the order the
  spec lists them (stripe size, stripe count, stripe pattern, flags, extent start, extent
  end, mirror id), followed by the pool name, an array of 16 characters.  The record
  structure is the base record, \<open>num_comps\<close>, and the two pointer members \<open>comps\<close> and
  \<open>ost_ids\<close> that the readers assign (eight bytes each); an identifier is eight bytes.
  \<open>LUSTRE_RECORD_SIZE\<close> is the serialized length: header plus components plus identifiers.
\<close>

definition sizeof_base_record :: nat where
  "sizeof_base_record = 16"

definition LUSTRE_COMP_STRIPE_SIZE :: nat where "LUSTRE_COMP_STRIPE_SIZE = 0"
definition LUSTRE_COMP_STRIPE_COUNT :: nat where "LUSTRE_COMP_STRIPE_COUNT = 1"
definition LUSTRE_COMP_STRIPE_PATTERN :: nat where "LUSTRE_COMP_STRIPE_PATTERN = 2"
definition LUSTRE_COMP_FLAGS :: nat where "LUSTRE_COMP_FLAGS = 3"
definition LUSTRE_COMP_EXT_START :: nat where "LUSTRE_COMP_EXT_START = 4"
definition LUSTRE_COMP_EXT_END :: nat where "LUSTRE_COMP_EXT_END = 5"
definition LUSTRE_COMP_MIRROR_ID :: nat where "LUSTRE_COMP_MIRROR_ID = 6"
definition LUSTRE_COMP_NUM_INDICES :: nat where "LUSTRE_COMP_NUM_INDICES = 7"

definition sizeof_pool_name :: nat where
  "sizeof_pool_name = 16"

definition sizeof_lustre_component :: nat where
  "sizeof_lustre_component = 8 * LUSTRE_COMP_NUM_INDICES + sizeof_pool_name"

definition sizeof_lustre_record :: nat where
  "sizeof_lustre_record = sizeof_base_record + 8 + 8 + 8"

definition sizeof_OST_ID :: nat where
  "sizeof_OST_ID = 8"

definition DARSHAN_LUSTRE_VER :: int where
  "DARSHAN_LUSTRE_VER = 2"

definition LUSTRE_RECORD_SIZE :: "int \<Rightarrow> int \<Rightarrow> int" where
  "LUSTRE_RECORD_SIZE comps osts =
     int sizeof_base_record + 8 + int sizeof_lustre_component * comps + int sizeof_OST_ID * osts"

text \<open>Offsets of the members of \<open>struct darshan_lustre_record\<close>.\<close>

definition off_num_comps :: nat where "off_num_comps = sizeof_base_record"
definition off_comps :: nat where "off_comps = sizeof_base_record + 8"
definition off_ost_ids :: nat where "off_ost_ids = sizeof_base_record + 16"

text \<open>Offset in a component of counter \<open>j\<close>, and of the pool name.\<close>

definition off_counter :: "nat \<Rightarrow> nat" where "off_counter j = 8 * j"
definition off_pool_name :: nat where "off_pool_name = 8 * LUSTRE_COMP_NUM_INDICES"

section \<open>The Lustre module: reading\<close>

text \<open>
  \<^verbatim>\<open>for (i = 0; i < rec->num_comps; i++)
    for(j=0; j<LUSTRE_COMP_NUM_INDICES; j++)
        DARSHAN_BSWAP64(&rec->comps[i].counters[j]);\<close>
  for \<open>n\<close> components, the first at offset \<open>off\<close>.
\<close>

primrec bswap_comps :: "byte list \<Rightarrow> nat \<Rightarrow> nat \<Rightarrow> byte list option" where
  "bswap_comps mem off 0 = Some mem"
| "bswap_comps mem off (Suc n) =
     (case bswap64_array mem off LUSTRE_COMP_NUM_INDICES of
        None \<Rightarrow> None
      | Some mem' \<Rightarrow> bswap_comps mem' (off + sizeof_lustre_component) n)"

text \<open>
  \<^verbatim>\<open>for (i = 0; i < rec->num_comps; i++)
    num_osts += rec->comps[i].counters[LUSTRE_COMP_STRIPE_COUNT];\<close>
  \<open>num_osts\<close> is an \<open>int\<close>: each sum is converted back to 32 bits.
\<close>

primrec sum_stripe_counts :: "byte list \<Rightarrow> nat \<Rightarrow> nat \<Rightarrow> int \<Rightarrow> int option" where
  "sum_stripe_counts mem off 0 num_osts = Some num_osts"
| "sum_stripe_counts mem off (Suc n) num_osts =
     (case load mem (off + off_counter LUSTRE_COMP_STRIPE_COUNT) 8 of
        None \<Rightarrow> None
      | Some w \<Rightarrow>
          sum_stripe_counts mem (off + sizeof_lustre_component) n
            (c_int (num_osts + sint (le64 w))))"

text \<open>A loop \<open>for (i = 0; i < n; i++)\<close> with \<open>int i\<close> runs \<open>n\<close> times for \<open>0 \<le> n \<le> INT_MAX\<close>, not
  at all for negative \<open>n\<close>, and overflows \<open>i\<close> beyond.\<close>

definition loop_count :: "int \<Rightarrow> nat option" where
  "loop_count n = (if n > INT_MAX then None else Some (nat n))"

text \<open>
  The second half of \<open>darshan_log_get_lustre_record\<close>, from the computation of \<open>osts_size\<close>:
  grow the block when it is owned by the call, set the two pointers, read the identifiers.
\<close>

definition get_lustre_osts ::
  "allocator \<Rightarrow> darshan_fd \<Rightarrow> buffer option \<Rightarrow> buffer \<Rightarrow> mem_event list \<Rightarrow> int \<Rightarrow> int
     \<Rightarrow> get_result option" where
  "get_lustre_osts al fd lustre_buf_p rec evs comps_size num_osts =
     (let osts_size = c_int (num_osts * int sizeof_OST_ID);
          new_size = c_size_t (int sizeof_lustre_record + comps_size + osts_size);
          grown = (case lustre_buf_p of None \<Rightarrow> realloc al rec new_size | Some _ \<Rightarrow> Some rec);
          evs' = (case lustre_buf_p of None \<Rightarrow> evs @ [Realloc new_size] | Some _ \<Rightarrow> evs)
      in case grown of
        None \<Rightarrow> Some (return_code (- 1) lustre_buf_p fd evs')
      | Some rec \<Rightarrow>
          if int sizeof_lustre_record + comps_size < 0 then None
          else do {
            let ost_off = nat (int sizeof_lustre_record + comps_size);
            m1 \<leftarrow> store (bytes rec) off_comps (store64 (addr rec + of_nat sizeof_lustre_record));
            m2 \<leftarrow> store m1 off_ost_ids (store64 (addr rec + of_nat sizeof_lustre_record + word_of_int comps_size));
            let (ret, got, fd') = darshan_log_get_mod fd osts_size;
            m3 \<leftarrow> store m2 ost_off got;
            if ret < osts_size
            then Some (hand_over lustre_buf_p (rec\<lparr>bytes := m3\<rparr>) (- 1) fd' evs')
            else do {
              m4 \<leftarrow> (if swap_flag fd
                     then do { n \<leftarrow> loop_count num_osts; bswap64_array m3 ost_off n }
                     else Some m3);
              Some (hand_over lustre_buf_p (rec\<lparr>bytes := m4\<rparr>) 1 fd' evs')
            }
          })"

text \<open>
  The first half for a record with at least one component: set \<open>rec->comps\<close>, read the
  components, swap their counters when the read was complete, and sum the stripe counts.
  A short read sets \<open>ret = -1\<close> and the function goes on.
\<close>

definition get_lustre_comps ::
  "allocator \<Rightarrow> darshan_fd \<Rightarrow> buffer option \<Rightarrow> buffer \<Rightarrow> mem_event list \<Rightarrow> int \<Rightarrow> int
     \<Rightarrow> get_result option" where
  "get_lustre_comps al fd lustre_buf_p rec evs num_comps comps_size =
     do {
       m1 \<leftarrow> store (bytes rec) off_comps (store64 (addr rec + of_nat sizeof_lustre_record));
       let (ret, got, fd') = darshan_log_get_mod fd comps_size;
       m2 \<leftarrow> store m1 sizeof_lustre_record got;
       n \<leftarrow> loop_count num_comps;
       m3 \<leftarrow> (if ret < comps_size then Some m2
              else if swap_flag fd then bswap_comps m2 sizeof_lustre_record n
              else Some m2);
       num_osts \<leftarrow> sum_stripe_counts m3 sizeof_lustre_record n 0;
       get_lustre_osts al fd' lustre_buf_p (rec\<lparr>bytes := m3\<rparr>) evs comps_size num_osts
     }"

text \<open>
  The middle of \<open>darshan_log_get_lustre_record_v1\<close>: copy the base record, set
  \<open>num_comps\<close> to 1 and the two pointers, and fill in the single component.
\<close>

definition lustre_v1_upgrade :: "buffer \<Rightarrow> byte list \<Rightarrow> int \<Rightarrow> int \<Rightarrow> byte list option" where
  "lustre_v1_upgrade rec fixed_record stripe_size stripe_count =
     do {
       let comps = sizeof_lustre_record;
       let ost_ids = sizeof_lustre_record + sizeof_lustre_component;
       m1 \<leftarrow> store (bytes rec) 0 (take sizeof_base_record fixed_record);
       m2 \<leftarrow> store m1 off_num_comps (store_i64 1);
       m3 \<leftarrow> store m2 off_comps (store64 (addr rec + of_nat comps));
       m4 \<leftarrow> store m3 off_ost_ids (store64 (addr rec + of_nat ost_ids));
       c1 \<leftarrow> store m4 (comps + off_counter LUSTRE_COMP_STRIPE_SIZE) (store_i64 stripe_size);
       c2 \<leftarrow> store c1 (comps + off_counter LUSTRE_COMP_STRIPE_COUNT) (store_i64 stripe_count);
       c3 \<leftarrow> store c2 (comps + off_counter LUSTRE_COMP_STRIPE_PATTERN) (store_i64 (- 1));
       c4 \<leftarrow> store c3 (comps + off_counter LUSTRE_COMP_FLAGS) (store_i64 (- 1));
       c5 \<leftarrow> store c4 (comps + off_counter LUSTRE_COMP_EXT_START) (store_i64 0);
       c6 \<leftarrow> store c5 (comps + off_counter LUSTRE_COMP_EXT_END) (store_i64 (- 1));
       c7 \<leftarrow> store c6 (comps + off_counter LUSTRE_COMP_MIRROR_ID) (store_i64 (- 1));
       store c7 (comps + off_pool_name) [0]
     }"

text \<open>
  \<open>darshan_log_get_lustre_record_v1\<close>: the reader of version-1 records, a block of seven
  64-bit values followed by the identifiers.  In \<^verbatim>\<open>ret < (stripe_count * sizeof(OST_ID))\<close>
  both sides are converted to \<open>size_t\<close>.
\<close>

definition darshan_log_get_lustre_record_v1 ::
  "allocator \<Rightarrow> darshan_fd \<Rightarrow> buffer option \<Rightarrow> get_result option" where
  "darshan_log_get_lustre_record_v1 al fd lustre_buf_p =
     (let (ret, raw, fd1) = darshan_log_get_mod fd (int (7 * 8))
      in if ret < 0 then Some (return_code (- 1) lustre_buf_p fd1 [])
         else if ret < int (7 * 8) then Some (return_code 0 lustre_buf_p fd1 [])
         else do {
           fixed_record \<leftarrow> (if swap_flag fd then bswap64_array raw 0 7 else Some raw);
           let stripe_size = sint (le64 (take 8 (drop (8 * 5) fixed_record)));
           let stripe_count = sint (le64 (take 8 (drop (8 * 6) fixed_record)));
           let alloc_size = c_size_t (int sizeof_lustre_record + int sizeof_lustre_component
                                  + stripe_count * int sizeof_OST_ID);
           let evs = (case lustre_buf_p of None \<Rightarrow> [Malloc alloc_size] | Some _ \<Rightarrow> []);
           case (case lustre_buf_p of None \<Rightarrow> malloc al alloc_size | Some b \<Rightarrow> Some b) of
             None \<Rightarrow> Some (return_code (- 1) lustre_buf_p fd1 evs)
           | Some rec \<Rightarrow> do {
               let ost_ids = sizeof_lustre_record + sizeof_lustre_component;
               m \<leftarrow> lustre_v1_upgrade rec fixed_record stripe_size stripe_count;
               let (ret, got, fd2) =
                     darshan_log_get_mod fd1 (c_int (stripe_count * int sizeof_OST_ID));
               m5 \<leftarrow> store m ost_ids got;
               if c_size_t ret < c_size_t (stripe_count * int sizeof_OST_ID)
               then Some (hand_over lustre_buf_p (rec\<lparr>bytes := m5\<rparr>) (- 1) fd2 evs)
               else do {
                 m6 \<leftarrow> (if swap_flag fd
                        then do { n \<leftarrow> loop_count stripe_count; bswap64_array m5 ost_ids n }
                        else Some m5);
                 Some (hand_over lustre_buf_p (rec\<lparr>bytes := m6\<rparr>) 1 fd2 evs)
               }
             }
         })"

text \<open>
  \<open>darshan_log_get_lustre_record\<close>.  \<open>comps_size\<close> is an \<open>int\<close>; in the zero-component branch
  \<open>ret\<close> still holds what the read of the fixed-alloc_size portion returned.
\<close>

definition darshan_log_get_lustre_record ::
  "allocator \<Rightarrow> darshan_fd \<Rightarrow> buffer option \<Rightarrow> get_result option" where
  "darshan_log_get_lustre_record al fd lustre_buf_p =
     (if mod_len fd = 0 then Some (return_code 0 lustre_buf_p fd [])
      else if mod_ver fd = 0 \<or> mod_ver fd > DARSHAN_LUSTRE_VER
      then Some (return_code (- 1) lustre_buf_p fd [])
      else if mod_ver fd = 1 then darshan_log_get_lustre_record_v1 al fd lustre_buf_p
      else
        let fixed_size = int (sizeof_base_record + 8);
            (ret, raw, fd1) = darshan_log_get_mod fd fixed_size
        in if ret < 0 then Some (return_code (- 1) lustre_buf_p fd1 [])
           else if ret < fixed_size then Some (return_code 0 lustre_buf_p fd1 [])
           else do {
             tmp_rec \<leftarrow> (if swap_flag fd then bswap64_array raw 0 3 else Some raw);
             let num_comps = sint (le64 (take 8 (drop off_num_comps tmp_rec)));
             let comps_size = c_int (num_comps * int sizeof_lustre_component);
             let alloc_size = c_size_t (int sizeof_lustre_record + comps_size);
             let evs = (case lustre_buf_p of None \<Rightarrow> [Malloc alloc_size] | Some _ \<Rightarrow> []);
             case (case lustre_buf_p of None \<Rightarrow> malloc al alloc_size | Some b \<Rightarrow> Some b) of
               None \<Rightarrow> Some (return_code (- 1) lustre_buf_p fd1 evs)
             | Some rec \<Rightarrow> do {
                 m1 \<leftarrow> store (bytes rec) 0 tmp_rec;
                 if num_comps < 1
                 then do {
                   m2 \<leftarrow> store m1 off_comps (store64 0);
                   m3 \<leftarrow> store m2 off_ost_ids (store64 0);
                   Some (hand_over lustre_buf_p (rec\<lparr>bytes := m3\<rparr>) ret fd1 evs)
                 }
                 else get_lustre_comps al fd1 lustre_buf_p (rec\<lparr>bytes := m1\<rparr>) evs
                        num_comps comps_size
               }
           })"

section \<open>The Lustre module: writing\<close>

text \<open>The offset in the block of the address held by a pointer member.\<close>

definition ptr_off :: "buffer \<Rightarrow> 64 word \<Rightarrow> nat" where
  "ptr_off b p = unat (p - addr b)"

text \<open>
  \<open>darshan_log_put_lustre_record\<close>: sum the stripe counts through \<open>rec->comps\<close>, then hand
  the first \<open>LUSTRE_RECORD_SIZE(rec->num_comps, num_osts)\<close> bytes at \<open>rec\<close> to the writer,
  tagged \<open>DARSHAN_LUSTRE_VER\<close>.
\<close>

definition darshan_log_put_lustre_record :: "darshan_fd \<Rightarrow> buffer \<Rightarrow> (int \<times> darshan_fd) option" where
  "darshan_log_put_lustre_record fd rec =
     do {
       nc \<leftarrow> load (bytes rec) off_num_comps 8;
       let num_comps = sint (le64 nc);
       n \<leftarrow> loop_count num_comps;
       comps \<leftarrow> load (bytes rec) off_comps 8;
       num_osts \<leftarrow> sum_stripe_counts (bytes rec) (ptr_off rec (le64 comps)) n 0;
       (ret, fd') \<leftarrow> darshan_log_put_mod fd (bytes rec)
                       (c_int (LUSTRE_RECORD_SIZE num_comps num_osts)) DARSHAN_LUSTRE_VER;
       Some (if ret < 0 then - 1 else 0, fd')
     }"

section \<open>The Lustre module: a record as its consumers read it\<close>

text \<open>
  \<open>darshan_log_print_lustre_record\<close> walks a record through its members: \<open>num_comps\<close>
  components at \<open>rec->comps\<close>, and for each component as many identifiers as its stripe
  count, taken in sequence from \<open>rec->ost_ids\<close>.  \<open>lustre_view\<close> collects what such a walk
  reads; the pool name is the C string in the component's character array.
\<close>

record lustre_component =
  counters :: "int list"
  pool_name :: "byte list"

record lustre_view =
  rec_id :: "64 word"
  rec_rank :: int
  rec_num_comps :: int
  rec_comps :: "lustre_component list"
  rec_ost_ids :: "int list"

definition read_i64 :: "byte list \<Rightarrow> nat \<Rightarrow> int option" where
  "read_i64 mem off = map_option (\<lambda>w. sint (le64 w)) (load mem off 8)"

definition read_comp :: "byte list \<Rightarrow> nat \<Rightarrow> lustre_component option" where
  "read_comp mem off =
     do {
       cs \<leftarrow> those (map (\<lambda>j. read_i64 mem (off + off_counter j)) [0..<LUSTRE_COMP_NUM_INDICES]);
       pn \<leftarrow> load mem (off + off_pool_name) sizeof_pool_name;
       Some \<lparr>counters = cs, pool_name = takeWhile (\<lambda>c. c \<noteq> 0) pn\<rparr>
     }"

text \<open>An array of \<open>n\<close> bytes at an offset; nothing is read when \<open>n\<close> is 0, wherever the
  pointer points.\<close>

definition load_array :: "byte list \<Rightarrow> nat \<Rightarrow> nat \<Rightarrow> byte list option" where
  "load_array mem off n = (if n = 0 then Some [] else load mem off n)"

definition lustre_view :: "buffer \<Rightarrow> lustre_view option" where
  "lustre_view rec =
     do {
       ident \<leftarrow> load (bytes rec) 0 8;
       rank \<leftarrow> read_i64 (bytes rec) 8;
       n \<leftarrow> read_i64 (bytes rec) off_num_comps;
       cp \<leftarrow> load (bytes rec) off_comps 8;
       op \<leftarrow> load (bytes rec) off_ost_ids 8;
       carr \<leftarrow> load_array (bytes rec) (ptr_off rec (le64 cp)) (nat n * sizeof_lustre_component);
       cs \<leftarrow> those (map (\<lambda>i. read_comp carr (i * sizeof_lustre_component)) [0..<nat n]);
       let num_osts = sum_list (map (\<lambda>c. nat (counters c ! LUSTRE_COMP_STRIPE_COUNT)) cs);
       oarr \<leftarrow> load_array (bytes rec) (ptr_off rec (le64 op)) (num_osts * sizeof_OST_ID);
       ids \<leftarrow> those (map (\<lambda>k. read_i64 oarr (k * sizeof_OST_ID)) [0..<num_osts]);
       Some \<lparr>rec_id = le64 ident, rec_rank = rank, rec_num_comps = n, rec_comps = cs,
             rec_ost_ids = ids\<rparr>
     }"

section \<open>The Lustre module: printing\<close>

text \<open>
  The rendering of the flags counter in \<open>darshan_log_print_lustre_record\<close>.  \<open>flag_str\<close> is an
  array of 64 characters.  \<open>strncat(dest, src, n)\<close> appends at most \<open>n\<close> characters of \<open>src\<close> and
  then a terminator; with \<open>n = 64 - strlen(flag_str)\<close> the terminator lands one past the
  array when the labels fill it.  The model keeps the string before the terminator and
  records whether such a write happened.
\<close>

definition flag_str_table :: "string list" where
  "flag_str_table =
     [''stale,'', ''prefrd,'', ''prefwr,'', ''offline,'', ''init,'', ''nosync,'',
      ''extension,'', ''parity,'', ''compress,'', ''partial,'', ''nocompr,'', ''neg,'']"

definition strncat :: "string \<Rightarrow> string \<Rightarrow> nat \<Rightarrow> string" where
  "strncat dest src n = dest @ take n src"

text \<open>
  \<^verbatim>\<open>for(k = 0; k < 12; k++) {
    if(flags & flag) strncat(flag_str, flag_str_table[k], 64 - strlen(flag_str));
    flag = flag << 1; }\<close>
\<close>

primrec flag_loop :: "64 word \<Rightarrow> string list \<Rightarrow> 64 word \<Rightarrow> string \<times> bool \<Rightarrow> string \<times> bool" where
  "flag_loop flags [] flag acc = acc"
| "flag_loop flags (label # table) flag acc =
     flag_loop flags table (push_bit 1 flag)
       (if flags AND flag \<noteq> 0
        then (let flag_str = strncat (fst acc) label (64 - length (fst acc))
              in (flag_str, snd acc \<or> 64 \<le> length flag_str))
        else acc)"

definition lustre_flag_str :: "64 word \<Rightarrow> string \<times> bool" where
  "lustre_flag_str flags =
     (let (flag_str, past_end) = flag_loop flags flag_str_table 1 ([], False);
          flag_str = (if flag_str \<noteq> [] then butlast flag_str else ''0'');
          flag_str = (if flags = - 1 then ''N/A'' else flag_str)
      in (flag_str, past_end))"

text \<open>
  \<open>darshan_log_print_lustre_record_diff\<close>: the whole comparison is inside \<^verbatim>\<open>#if 0\<close>; what is
  compiled is the three declarations and \<open>return\<close>.  The result is the list of lines
  printed.
\<close>

definition darshan_log_print_lustre_record_diff ::
  "buffer option \<Rightarrow> string \<Rightarrow> buffer option \<Rightarrow> string \<Rightarrow> string list" where
  "darshan_log_print_lustre_record_diff rec1 file_name1 rec2 file_name2 = []"

section \<open>The STDIO module\<close>

text \<open>
  A STDIO record is the base record, \<open>STDIO_NUM_INDICES\<close> integer counters and
  \<open>STDIO_F_NUM_INDICES\<close> floating-point counters of eight bytes each.  The two lengths are
  generated from macros of darshan-stdio-log-format.h, which is not among the sources:
  they are the parameters \<open>ni\<close> and \<open>nf\<close>.
\<close>

definition sizeof_stdio_file :: "nat \<Rightarrow> nat \<Rightarrow> nat" where
  "sizeof_stdio_file ni nf = sizeof_base_record + 8 * ni + 8 * nf"

text \<open>
  Modelled from the spec: \<open>DARSHAN_STDIO_VER\<close>, declared in darshan-stdio-log-format.h, which
  is not among the sources, is the module's current format version.
\<close>

definition DARSHAN_STDIO_VER :: int where
  "DARSHAN_STDIO_VER = 2"

text \<open>
  \<open>darshan_log_get_stdio_record\<close>.  In \<^verbatim>\<open>ret == sizeof(struct darshan_stdio_file)\<close> the left
  side is converted to \<open>size_t\<close>.  The swaps run over the identifier, the rank and both
  counter arrays, which lie one after the other.
\<close>

definition darshan_log_get_stdio_record ::
  "nat \<Rightarrow> nat \<Rightarrow> allocator \<Rightarrow> darshan_fd \<Rightarrow> buffer option \<Rightarrow> get_result option" where
  "darshan_log_get_stdio_record ni nf al fd stdio_buf_p =
     (if mod_len fd = 0 then Some (return_code 0 stdio_buf_p fd [])
      else
        let file_size = sizeof_stdio_file ni nf;
            evs = (case stdio_buf_p of None \<Rightarrow> [Malloc file_size] | Some _ \<Rightarrow> [])
        in case (case stdio_buf_p of None \<Rightarrow> malloc al file_size | Some b \<Rightarrow> Some b) of
             None \<Rightarrow> Some (return_code (- 1) stdio_buf_p fd evs)
           | Some file \<Rightarrow> do {
               let (ret, got, fd1) = darshan_log_get_mod fd (int file_size);
               m1 \<leftarrow> store (bytes file) 0 got;
               let freed = (stdio_buf_p = None \<and> c_size_t ret \<noteq> file_size);
               let evs = (if freed then evs @ [Free] else evs);
               if ret < 0
               then Some \<lparr>g_ret = - 1, g_buf = (if freed then None else Some (file\<lparr>bytes := m1\<rparr>)),
                          g_fd = fd1, g_events = evs\<rparr>
               else if ret < int file_size
               then Some \<lparr>g_ret = 0, g_buf = (if freed then None else Some (file\<lparr>bytes := m1\<rparr>)),
                          g_fd = fd1, g_events = evs\<rparr>
               else do {
                 m2 \<leftarrow> (if swap_flag fd then bswap64_array m1 0 (2 + ni + nf) else Some m1);
                 Some \<lparr>g_ret = 1, g_buf = (if freed then None else Some (file\<lparr>bytes := m2\<rparr>)),
                       g_fd = fd1, g_events = evs\<rparr>
               }
             })"

text \<open>\<open>darshan_log_put_stdio_record\<close>: the parameter \<open>ver\<close> is not used in the body.\<close>

definition darshan_log_put_stdio_record ::
  "nat \<Rightarrow> nat \<Rightarrow> darshan_fd \<Rightarrow> buffer \<Rightarrow> int \<Rightarrow> (int \<times> darshan_fd) option" where
  "darshan_log_put_stdio_record ni nf fd rec ver =
     do {
       (ret, fd') \<leftarrow> darshan_log_put_mod fd (bytes rec) (int (sizeof_stdio_file ni nf))
                       DARSHAN_STDIO_VER;
       Some (if ret < 0 then - 1 else 0, fd')
     }"

section \<open>Logs and example inputs\<close>

text \<open>
  The eight bytes of a 64-bit value in a log: in the reader's byte order, or reversed
  when the log was written on a host of the other byte order (\<open>swap_flag\<close>).
\<close>

definition on_disk :: "bool \<Rightarrow> 64 word \<Rightarrow> byte list" where
  "on_disk sw w = (if sw then rev (store64 w) else store64 w)"

text \<open>A descriptor opened for reading a module region of the given version and bytes.\<close>

definition reader :: "int \<Rightarrow> bool \<Rightarrow> byte list \<Rightarrow> darshan_fd" where
  "reader ver sw region =
     \<lparr>mod_len = length region, mod_ver = ver, swap_flag = sw, mod_data = region,
      io_errs = [], mod_out = [], put_fails = False\<rparr>"

text \<open>A descriptor opened for writing, with nothing written yet.\<close>

definition writer :: darshan_fd where
  "writer = \<lparr>mod_len = 0, mod_ver = 0, swap_flag = False, mod_data = [],
             io_errs = [], mod_out = [], put_fails = False\<rparr>"

text \<open>An allocator with 64 KiB to give, whose fresh memory is zero.\<close>

definition zero_heap :: allocator where
  "zero_heap = \<lparr>avail = 65536, fresh_addr = 0x1000, moved_addr = 0x2000, junk = (\<lambda>_. 0)\<rparr>"

text \<open>A caller's buffer of \<open>n\<close> zero bytes.\<close>

definition zero_buffer :: "nat \<Rightarrow> buffer" where
  "zero_buffer n = \<lparr>addr = 0x5000, bytes = replicate n 0\<rparr>"

text \<open>
  A current-format Lustre record in a log: identifier 11, rank 3, one component of stripe
  size 1048576, stripe count 1, pattern 0, flags 0, extent 0 to -1, mirror 0, no pool name,
  and the identifier 7.
\<close>

definition one_comp_region :: "byte list" where
  "one_comp_region =
     concat (map (on_disk False) [11, 3, 1, 1048576, 1, 0, 0, 0, - 1, 0])
       @ replicate 16 0 @ on_disk False 7"

text \<open>That record in memory, as \<open>darshan_log_get_lustre_record\<close> lays it out at address
  \<open>0x2000\<close>, and the same record with stripe size 65536.\<close>

definition one_comp_rec :: buffer where
  "one_comp_rec =
     \<lparr>addr = 0x2000,
      bytes = concat (map store64 [11, 3, 1, 0x2028, 0x2070, 1048576, 1, 0, 0, 0, - 1, 0])
                @ replicate 16 0 @ store64 7\<rparr>"

definition other_comp_rec :: buffer where
  "other_comp_rec =
     \<lparr>addr = 0x2000,
      bytes = concat (map store64 [11, 3, 1, 0x2028, 0x2070, 65536, 1, 0, 0, 0, - 1, 0])
                @ replicate 16 0 @ store64 7\<rparr>"

text \<open>A log with a header that declares two components and the bytes of one, all zero.\<close>

definition truncated_region :: "byte list" where
  "truncated_region = concat (map (on_disk False) [11, 3, 2]) @ replicate 72 0"

text \<open>A log with a header that declares no component.\<close>

definition zero_comp_region :: "byte list" where
  "zero_comp_region = concat (map (on_disk False) [11, 3, 0])"

text \<open>
  A version-1 Lustre record in a log: identifier 11, rank 3, three unused values, stripe
  size 65536, stripe count 4, and the identifiers 1 to 4.
\<close>

definition legacy_region :: "bool \<Rightarrow> byte list" where
  "legacy_region sw =
     concat (map (on_disk sw) [11, 3, 7, 8, 9, 65536, 4]) @ concat (map (on_disk sw) [1, 2, 3, 4])"

text \<open>
  A log of the other byte order with a header that declares two components and the bytes
  of one: stripe size 1048576 and stripe count 2, everything else zero.
\<close>

definition swapped_truncated_region :: "byte list" where
  "swapped_truncated_region =
     concat (map (on_disk True) [11, 3, 2]) @ concat (map (on_disk True) [1048576, 2])
       @ replicate 56 0"

section \<open>Notions used to state the claims\<close>

text \<open>The container's reader fails at its next call.\<close>

definition reader_fails :: "darshan_fd \<Rightarrow> bool" where
  "reader_fails fd = (case io_errs fd of True # _ \<Rightarrow> True | _ \<Rightarrow> False)"

text \<open>The last allocator call of a run was a request that the allocator refused.\<close>

definition refused :: "allocator \<Rightarrow> mem_event list \<Rightarrow> bool" where
  "refused al evs =
     (evs \<noteq> [] \<and>
      (case last evs of Malloc n \<Rightarrow> avail al < n | Realloc n \<Rightarrow> avail al < n | Free \<Rightarrow> False))"

text \<open>The length of the fixed-size portion that the Lustre readers ask for first: seven
  values for a version-1 record, else the base record and \<open>num_comps\<close>.\<close>

definition lustre_fixed_size :: "darshan_fd \<Rightarrow> nat" where
  "lustre_fixed_size fd = (if mod_ver fd = 1 then 7 * 8 else sizeof_base_record + 8)"

text \<open>
  The block that the version-1 reader leaves behind for a record of stripe size 65536 and
  stripe count 4 with the identifiers 1 to 4: the 15 characters after the pool name's
  terminator and the bytes beyond the record keep what the block held.
\<close>

definition v1_image :: "buffer \<Rightarrow> 64 word \<Rightarrow> 64 word \<Rightarrow> byte list" where
  "v1_image rec ident rank =
     store64 ident @ store64 rank @ store_i64 1
       @ store64 (addr rec + 40) @ store64 (addr rec + 112)
       @ store_i64 65536 @ store_i64 4 @ store_i64 (- 1) @ store_i64 (- 1)
       @ store_i64 0 @ store_i64 (- 1) @ store_i64 (- 1)
       @ [0] @ take 15 (drop 97 (bytes rec))
       @ concat (map store64 [1, 2, 3, 4]) @ drop 144 (bytes rec)"

section \<open>Facts about bytes and blocks\<close>

lemma bit_horner_bytes:
  "bit (horner_sum uint 256 (bs :: byte list)) n
     \<longleftrightarrow> n div 8 < length bs \<and> bit (bs ! (n div 8)) (n mod 8)"
  using bit_horner_sum_uint_exp_iff [of bs n] by simp

lemma length_store64 [simp]: "length (store64 w) = 8"
  by (simp add: store64_def)

lemma length_store_i64 [simp]: "length (store_i64 x) = 8"
  by (simp add: store_i64_def)

lemma le64_store64 [simp]: "le64 (store64 w) = w"
proof (rule bit_word_eqI)
  fix n assume n: "n < LENGTH(64)"
  then have "n div 8 < 8" by simp
  then show "bit (le64 (store64 w)) n = bit w n"
    using n unfolding le64_def
    by (simp add: bit_word_of_int_iff bit_horner_bytes store64_def bit_simps del: upt_Suc)
qed

lemma length_on_disk [simp]: "length (on_disk sw w) = 8"
  by (simp add: on_disk_def)

lemma store_length: "store mem off bs = Some mem' \<Longrightarrow> length mem' = length mem"
  by (auto simp: store_def split: if_splits)

lemma DARSHAN_BSWAP64_length: "DARSHAN_BSWAP64 mem off = Some mem' \<Longrightarrow> length mem' = length mem"
  by (auto simp: DARSHAN_BSWAP64_def load_def store_def split: if_splits option.splits)

section \<open>The claims\<close>

subsection \<open>C7: the Lustre record differ\<close>

text \<open>
  C7 (as stated, refuted): the claim has \<open>print_diff\<close> emit a "-" line for every field of a
  record whose counterpart is absent, and "-"/"+" lines for every mismatching counter.  For
  a present record against an absent one, and for two records that differ in the stripe
  size, \<open>darshan_log_print_lustre_record_diff\<close> prints no line at all.
\<close>

theorem C7_diff_prints_nothing_counterexample:
  "darshan_log_print_lustre_record_diff (Some one_comp_rec) ''a.log'' None ''b.log'' = []
   \<and> darshan_log_print_lustre_record_diff (Some one_comp_rec) ''a.log''
         (Some other_comp_rec) ''b.log'' = []
   \<and> lustre_view one_comp_rec \<noteq> lustre_view other_comp_rec"
  by code_simp

text \<open>
  C7 (amended): for every pair of optional Lustre records and every pair of file names,
  \<open>darshan_log_print_lustre_record_diff\<close> prints nothing: the comparison of the counters and
  of the identifier list is compiled out.
\<close>

theorem C7_diff_prints_nothing:
  "darshan_log_print_lustre_record_diff rec1 file_name1 rec2 file_name2 = []"
  by (simp add: darshan_log_print_lustre_record_diff_def)

subsection \<open>C9: the version tag written by put_record\<close>

text \<open>
  C9 (as stated, refuted): the claim has the record tagged with the version the caller
  asked for.  Asked for version 1, \<open>darshan_log_put_stdio_record\<close> succeeds and tags the
  module with \<open>DARSHAN_STDIO_VER\<close>, which is 2.
\<close>

theorem C9_put_ignores_version_counterexample:
  "map_option (\<lambda>(ret, fd). (ret, mod_ver fd))
     (darshan_log_put_stdio_record 14 15 writer (zero_buffer 248) 1) = Some (0, 2)"
  by code_simp

text \<open>
  C9 (amended): for every record and every \<open>ver\<close> argument, \<open>darshan_log_put_stdio_record\<close>
  does what it does for \<open>ver = DARSHAN_STDIO_VER\<close>, and when it returns 0 the module is
  tagged with \<open>DARSHAN_STDIO_VER\<close>, the module's current format version, and the bytes
  appended are the first \<open>sizeof(struct darshan_stdio_file)\<close> bytes of the record.
\<close>

theorem C9_put_tags_current_version:
  "darshan_log_put_stdio_record ni nf fd rec ver
     = darshan_log_put_stdio_record ni nf fd rec DARSHAN_STDIO_VER
   \<and> (\<forall>fd'. darshan_log_put_stdio_record ni nf fd rec ver = Some (0, fd')
         \<longrightarrow> mod_ver fd' = DARSHAN_STDIO_VER
             \<and> mod_out fd' = mod_out fd @ take (sizeof_stdio_file ni nf) (bytes rec))"
  by (auto simp: darshan_log_put_stdio_record_def darshan_log_put_mod_def load_def
           split: if_splits option.splits)

theorem C9_put_tags_current_version_witness:
  "darshan_log_put_stdio_record 14 15 writer (zero_buffer 248) 1
     = Some (0, writer\<lparr>mod_ver := 2, mod_out := replicate 248 0\<rparr>)
   \<and> mod_ver (writer\<lparr>mod_ver := 2, mod_out := replicate 248 0\<rparr>) = DARSHAN_STDIO_VER
   \<and> mod_out (writer\<lparr>mod_ver := 2, mod_out := replicate 248 0\<rparr>)
       = mod_out writer @ take (sizeof_stdio_file 14 15) (bytes (zero_buffer 248))"
proof -
  have run: "darshan_log_put_stdio_record 14 15 writer (zero_buffer 248) 1
     = Some (0, writer\<lparr>mod_ver := 2, mod_out := replicate 248 0\<rparr>)"
    by code_simp
  from C9_put_tags_current_version [of 14 15 writer "zero_buffer 248" 1] run
  show ?thesis by simp
qed

end
